theory Spec2Isabelle
  imports Complex_Main "HOL-Library.Word"
begin

section \<open>The resettable integrator of src/drivers/device/integrator.h\<close>

subsection \<open>Timestamps and vectors\<close>

text \<open>
  \<^verbatim>\<open>hrt_abstime\<close> is \<^verbatim>\<open>uint64_t\<close> (the prototype of \<^verbatim>\<open>put\<close> says
  \<^verbatim>\<open>hrt_abstime\<close>, its definition \<^verbatim>\<open>uint64_t\<close>): a 64-bit word, whose subtraction
  wraps around and whose order is the unsigned one.
\<close>

type_synonym hrt_abstime = "64 word"

text \<open>
  Modelled from the spec: \<^verbatim>\<open>math::Vector<3>\<close> and its operators come from
  \<^verbatim>\<open>mathlib/mathlib.h\<close>, which is not among the sources. The spec describes the type as
  "a 3-element real vector supporting addition, scalar multiplication, and cross product",
  so the three components are real numbers here and the rounding of the machine's
  \<^verbatim>\<open>float\<close> is not part of the model.
\<close>

datatype vector3 = Vector3 (vx: real) (vy: real) (vz: real)

text \<open>Modelled from the spec: the vector \<^verbatim>\<open>(0.0f, 0.0f, 0.0f)\<close>.\<close>

definition vzero :: vector3 where
  "vzero = Vector3 0 0 0"

text \<open>Modelled from the spec: \<^verbatim>\<open>operator+\<close> of \<^verbatim>\<open>math::Vector<3>\<close>, componentwise addition.\<close>

fun vadd :: "vector3 \<Rightarrow> vector3 \<Rightarrow> vector3" where
  "vadd (Vector3 a b c) (Vector3 x y z) = Vector3 (a + x) (b + y) (c + z)"

text \<open>Modelled from the spec: \<^verbatim>\<open>operator*\<close> of \<^verbatim>\<open>math::Vector<3>\<close> with a scalar on the right.\<close>

fun vscale :: "vector3 \<Rightarrow> real \<Rightarrow> vector3" where
  "vscale (Vector3 a b c) k = Vector3 (a * k) (b * k) (c * k)"

text \<open>Modelled from the spec: \<^verbatim>\<open>operator%\<close> of \<^verbatim>\<open>math::Vector<3>\<close>, the cross product.\<close>

fun vcross :: "vector3 \<Rightarrow> vector3 \<Rightarrow> vector3" where
  "vcross (Vector3 a b c) (Vector3 x y z) =
     Vector3 (b * z - c * y) (c * x - a * z) (a * y - b * x)"

subsection \<open>The object\<close>

text \<open>
  The function pointer \<^verbatim>\<open>_auto_callback\<close> is \<open>None\<close> for \<^verbatim>\<open>nullptr\<close> and \<open>Some f\<close> for
  the address \<open>f\<close> of a handler. The fields keep the names of the class, without the leading
  underscore.
\<close>

type_synonym callback = nat

record integrator =
  auto_reset_interval :: hrt_abstime
  last_integration :: hrt_abstime
  last_auto :: hrt_abstime
  integral_auto :: vector3
  integral_read :: vector3
  last_val :: vector3
  last_delta :: vector3
  auto_callback :: "callback option"
  coning_comp_on :: bool

text \<open>The constructor \<^verbatim>\<open>Integrator::Integrator(auto_reset_interval, coning_compensation)\<close>.\<close>

definition Integrator :: "hrt_abstime \<Rightarrow> bool \<Rightarrow> integrator" where
  "Integrator interval coning_compensation =
     \<lparr>auto_reset_interval = interval,
      last_integration = 0,
      last_auto = 0,
      integral_auto = vzero,
      integral_read = vzero,
      last_val = vzero,
      last_delta = vzero,
      auto_callback = None,
      coning_comp_on = coning_compensation\<rparr>"

subsection \<open>put\<close>

text \<open>
  What a call of \<^verbatim>\<open>put\<close> gives back to its caller: the returned \<^verbatim>\<open>bool\<close>, the two
  reference parameters \<^verbatim>\<open>integral\<close> and \<^verbatim>\<open>integral_dt\<close> as the call leaves them, and the
  calls of the handler made on the way, each with the handler and its two arguments.
\<close>

record put_result =
  did_reset :: bool
  integral_out :: vector3
  integral_dt_out :: "64 word"
  callback_calls :: "(callback \<times> hrt_abstime \<times> vector3) list"

text \<open>
  Lines 132 to 144 of \<^verbatim>\<open>put\<close>: the local \<^verbatim>\<open>i\<close>. The difference of the two timestamps is
  taken in \<^verbatim>\<open>uint64_t\<close> and then converted to \<^verbatim>\<open>double\<close>.
\<close>

definition increment :: "integrator \<Rightarrow> hrt_abstime \<Rightarrow> vector3 \<Rightarrow> vector3" where
  "increment s timestamp val =
     (let dt = real (unat (timestamp - last_integration s)) / 1000000;
          i = vscale (vscale (vadd val (last_val s)) dt) 0.5
      in if coning_comp_on s
         then vadd i (vscale (vcross (vadd (integral_auto s) (vscale (last_delta s) (1 / 6))) i) 0.5)
         else i)"

text \<open>
  \<^verbatim>\<open>Integrator::put(timestamp, val, integral, integral_dt)\<close>. The arguments \<open>integral\<close> and
  \<open>integral_dt\<close> are the values of the caller's variables before the call.
\<close>

definition put ::
  "hrt_abstime \<Rightarrow> vector3 \<Rightarrow> vector3 \<Rightarrow> 64 word \<Rightarrow> integrator \<Rightarrow> put_result \<times> integrator" where
  "put timestamp val integral integral_dt s =
     (if last_integration s = 0 then
        (\<lparr>did_reset = False, integral_out = integral, integral_dt_out = integral_dt,
          callback_calls = []\<rparr>,
         s\<lparr>last_integration := timestamp, last_auto := timestamp, last_val := val\<rparr>)
      else
        let i = increment s timestamp val;
            s1 = s\<lparr>integral_auto := vadd (integral_auto s) i,
                   integral_read := vadd (integral_read s) i,
                   last_integration := timestamp,
                   last_val := val,
                   last_delta := i\<rparr>
        in if timestamp - last_auto s1 > auto_reset_interval s1 then
             (\<lparr>did_reset = True,
               integral_out = integral_auto s1,
               integral_dt_out = timestamp - last_auto s1,
               callback_calls =
                 (case auto_callback s1 of
                    None \<Rightarrow> []
                  | Some f \<Rightarrow> [(f, timestamp, integral_auto s1)])\<rparr>,
              s1\<lparr>last_auto := timestamp, integral_auto := vzero\<rparr>)
           else
             (\<lparr>did_reset = False, integral_out = integral, integral_dt_out = integral_dt,
               callback_calls = []\<rparr>,
              s1))"

subsection \<open>get, read and current_integral_start\<close>

text \<open>\<^verbatim>\<open>Integrator::get()\<close> returns \<^verbatim>\<open>_integral_auto\<close> and changes nothing.\<close>

definition get :: "integrator \<Rightarrow> vector3" where
  "get s = integral_auto s"

text \<open>\<^verbatim>\<open>Integrator::read(auto_reset)\<close>: the returned vector and the object afterwards.\<close>

definition read :: "bool \<Rightarrow> integrator \<Rightarrow> vector3 \<times> integrator" where
  "read auto_reset s =
     (let val = integral_read s
      in if auto_reset then (val, s\<lparr>integral_read := vzero\<rparr>) else (val, s))"

text \<open>\<^verbatim>\<open>Integrator::current_integral_start()\<close> returns \<^verbatim>\<open>_last_auto\<close>.\<close>

definition current_integral_start :: "integrator \<Rightarrow> hrt_abstime" where
  "current_integral_start s = last_auto s"

subsection \<open>The two states\<close>

text \<open>
  \<^verbatim>\<open>put\<close> tests \<^verbatim>\<open>_last_integration == 0\<close> to find out whether it has seen a sample:
  the value 0 of that field is the state "uninitialized", every other value "running".
\<close>

definition uninitialized :: "integrator \<Rightarrow> bool" where
  "uninitialized s = (last_integration s = 0)"

definition running :: "integrator \<Rightarrow> bool" where
  "running s = (last_integration s \<noteq> 0)"

subsection \<open>Sequences of calls\<close>

text \<open>
  A caller owns an integrator and the two variables it passes to \<^verbatim>\<open>put\<close> by reference.
  A call of a public member function gives a reply and leaves the caller's variables and the
  object in a new state; \<open>run\<close> makes the calls of a list one after the other and keeps the
  reply and the state after each of them.
\<close>

datatype call = Put hrt_abstime vector3 | Get | Read bool | Current_integral_start

datatype reply = Put_reply put_result | Vector_reply vector3 | Time_reply hrt_abstime

type_synonym caller = "vector3 \<times> 64 word \<times> integrator"

fun call_step :: "call \<Rightarrow> caller \<Rightarrow> reply \<times> caller" where
  "call_step (Put timestamp val) (integral, integral_dt, s) =
     (let r = put timestamp val integral integral_dt s
      in (Put_reply (fst r), (integral_out (fst r), integral_dt_out (fst r), snd r)))"
| "call_step Get (integral, integral_dt, s) =
     (Vector_reply (get s), (integral, integral_dt, s))"
| "call_step (Read auto_reset) (integral, integral_dt, s) =
     (let r = read auto_reset s in (Vector_reply (fst r), (integral, integral_dt, snd r)))"
| "call_step Current_integral_start (integral, integral_dt, s) =
     (Time_reply (current_integral_start s), (integral, integral_dt, s))"

fun run :: "call list \<Rightarrow> caller \<Rightarrow> (reply \<times> caller) list" where
  "run [] c = []"
| "run (x # xs) c = (let rc = call_step x c in rc # run xs (snd rc))"

text \<open>The object of a caller, and what one entry of a run shows of the two integrals.\<close>

fun obj :: "caller \<Rightarrow> integrator" where
  "obj (integral, integral_dt, s) = s"


text \<open>The calls of the handler made during a run, in order.\<close>

fun handler_calls_of :: "reply \<Rightarrow> (callback \<times> hrt_abstime \<times> vector3) list" where
  "handler_calls_of (Put_reply r) = callback_calls r"
| "handler_calls_of (Vector_reply v) = []"
| "handler_calls_of (Time_reply t) = []"

definition handler_calls :: "(reply \<times> caller) list \<Rightarrow> (callback \<times> hrt_abstime \<times> vector3) list" where
  "handler_calls tr = concat (map (\<lambda>rc. handler_calls_of (fst rc)) tr)"



text \<open>A call of \<^verbatim>\<open>put\<close> whose timestamp is the reserved value 0.\<close>

fun put_at_zero :: "call \<Rightarrow> bool" where
  "put_at_zero (Put timestamp val) = (timestamp = 0)"
| "put_at_zero Get = False"
| "put_at_zero (Read auto_reset) = False"
| "put_at_zero Current_integral_start = False"

subsection \<open>The arithmetic of the machine\<close>


















subsection \<open>The object and put in the arithmetic of the machine\<close>








section \<open>Initialisation\<close>

text \<open>
  C3. The first \<^verbatim>\<open>put(timestamp, value)\<close> on a freshly constructed integrator stores
  \<open>timestamp\<close> in both \<open>last_integration\<close> and \<open>last_auto\<close> and \<open>value\<close> in \<open>last_val\<close>,
  integrates nothing (both integrals and \<open>last_delta\<close> stay the zero vector, the caller's
  output variables are untouched), returns \<open>false\<close>, and \<^verbatim>\<open>get()\<close> right after it returns
  the zero vector.
\<close>

theorem first_put_initialises:
  "put timestamp val integral integral_dt (Integrator interval coning) =
     (\<lparr>did_reset = False, integral_out = integral, integral_dt_out = integral_dt,
       callback_calls = []\<rparr>,
      (Integrator interval coning)
        \<lparr>last_integration := timestamp, last_auto := timestamp, last_val := val\<rparr>)
   \<and> last_integration (snd (put timestamp val integral integral_dt (Integrator interval coning)))
       = timestamp
   \<and> last_auto (snd (put timestamp val integral integral_dt (Integrator interval coning)))
       = timestamp
   \<and> last_val (snd (put timestamp val integral integral_dt (Integrator interval coning))) = val
   \<and> integral_auto (snd (put timestamp val integral integral_dt (Integrator interval coning)))
       = vzero
   \<and> integral_read (snd (put timestamp val integral integral_dt (Integrator interval coning)))
       = vzero
   \<and> last_delta (snd (put timestamp val integral integral_dt (Integrator interval coning)))
       = vzero
   \<and> did_reset (fst (put timestamp val integral integral_dt (Integrator interval coning)))
       = False
   \<and> get (snd (put timestamp val integral integral_dt (Integrator interval coning))) = vzero"
  by (simp add: put_def Integrator_def get_def)

section \<open>The auto-reset of put\<close>

text \<open>
  C1. On an integrator that is already initialised, \<^verbatim>\<open>put(timestamp, value)\<close> first adds
  this call's increment to \<open>integral_auto\<close> and then returns \<open>true\<close> if and only if
  \<open>timestamp - last_auto\<close> (the subtraction of \<^verbatim>\<open>uint64_t\<close>) is strictly greater than
  \<open>auto_reset_interval\<close>. When it returns \<open>true\<close> it hands out the accumulated
  \<open>integral_auto\<close>, this call's increment included, and \<open>timestamp - last_auto\<close> as the
  elapsed time, and leaves \<open>integral_auto\<close> the zero vector and \<open>last_auto\<close> equal to
  \<open>timestamp\<close>. Otherwise it returns \<open>false\<close> and \<open>integral_auto\<close> keeps the sum.
\<close>

theorem put_auto_reset:
  assumes "last_integration s \<noteq> 0"
  shows "(did_reset (fst (put timestamp val integral integral_dt s))
            \<longleftrightarrow> auto_reset_interval s < timestamp - last_auto s)
    \<and> (did_reset (fst (put timestamp val integral integral_dt s)) \<longrightarrow>
          integral_out (fst (put timestamp val integral integral_dt s))
            = vadd (integral_auto s) (increment s timestamp val)
        \<and> integral_dt_out (fst (put timestamp val integral integral_dt s))
            = timestamp - last_auto s
        \<and> integral_auto (snd (put timestamp val integral integral_dt s)) = vzero
        \<and> last_auto (snd (put timestamp val integral integral_dt s)) = timestamp)
    \<and> (\<not> did_reset (fst (put timestamp val integral integral_dt s)) \<longrightarrow>
          integral_auto (snd (put timestamp val integral integral_dt s))
            = vadd (integral_auto s) (increment s timestamp val)
        \<and> last_auto (snd (put timestamp val integral integral_dt s)) = last_auto s)"
  using assms by (simp add: put_def Let_def)

theorem put_auto_reset_witness:
  "last_integration ((Integrator 4000 False)\<lparr>last_integration := 1000, last_auto := 1000\<rparr>) \<noteq> 0
   \<and> did_reset (fst (put 5001 (Vector3 2 0 0) vzero 0
        ((Integrator 4000 False)\<lparr>last_integration := 1000, last_auto := 1000\<rparr>)))
   \<and> integral_out (fst (put 5001 (Vector3 2 0 0) vzero 0
        ((Integrator 4000 False)\<lparr>last_integration := 1000, last_auto := 1000\<rparr>)))
       = Vector3 (4001 / 1000000) 0 0
   \<and> integral_dt_out (fst (put 5001 (Vector3 2 0 0) vzero 0
        ((Integrator 4000 False)\<lparr>last_integration := 1000, last_auto := 1000\<rparr>))) = 4001
   \<and> integral_auto (snd (put 5001 (Vector3 2 0 0) vzero 0
        ((Integrator 4000 False)\<lparr>last_integration := 1000, last_auto := 1000\<rparr>))) = vzero
   \<and> last_auto (snd (put 5001 (Vector3 2 0 0) vzero 0
        ((Integrator 4000 False)\<lparr>last_integration := 1000, last_auto := 1000\<rparr>))) = 5001"
  using put_auto_reset [of "(Integrator 4000 False)\<lparr>last_integration := 1000, last_auto := 1000\<rparr>"
      5001 "Vector3 2 0 0" vzero 0]
  by (simp add: Integrator_def increment_def vzero_def)

text \<open>
  C6. A call of \<^verbatim>\<open>put\<close> that returns \<open>false\<close> leaves the caller's variables \<open>integral\<close>
  and \<open>integral_dt\<close> as they were: they are written on the reset branch only.
\<close>

theorem put_no_reset_outputs_unmodified:
  "\<not> did_reset (fst (put timestamp val integral integral_dt s)) \<Longrightarrow>
     integral_out (fst (put timestamp val integral integral_dt s)) = integral
     \<and> integral_dt_out (fst (put timestamp val integral integral_dt s)) = integral_dt"
  by (simp add: put_def Let_def split: if_splits)

theorem put_no_reset_outputs_unmodified_witness:
  "\<not> did_reset (fst (put 5000 (Vector3 2 0 0) (Vector3 7 8 9) 77
        ((Integrator 4000 False)\<lparr>last_integration := 1000, last_auto := 1000\<rparr>)))
   \<and> integral_out (fst (put 5000 (Vector3 2 0 0) (Vector3 7 8 9) 77
        ((Integrator 4000 False)\<lparr>last_integration := 1000, last_auto := 1000\<rparr>)))
       = Vector3 7 8 9
   \<and> integral_dt_out (fst (put 5000 (Vector3 2 0 0) (Vector3 7 8 9) 77
        ((Integrator 4000 False)\<lparr>last_integration := 1000, last_auto := 1000\<rparr>))) = 77"
proof -
  have h: "\<not> did_reset (fst (put 5000 (Vector3 2 0 0) (Vector3 7 8 9) 77
        ((Integrator 4000 False)\<lparr>last_integration := 1000, last_auto := 1000\<rparr>)))"
    by (simp add: put_def Integrator_def Let_def)
  from put_no_reset_outputs_unmodified [OF h] h show ?thesis by simp
qed

text \<open>
  C10, as amended. An auto-reset inside \<^verbatim>\<open>put\<close> changes only \<open>integral_auto\<close> (zeroed)
  and \<open>last_auto\<close> (set to \<open>timestamp\<close>): \<open>last_val\<close>, \<open>last_delta\<close>, \<open>last_integration\<close>
  and \<open>integral_read\<close> keep what the same call wrote before the test, and the constructor's
  three fields are untouched. So, when the timestamp of the resetting call is not the
  reserved value 0, the next \<^verbatim>\<open>put\<close> integrates: its increment (which it leaves in
  \<open>last_delta\<close>) is the trapezoid over the sample of the resetting call, with a coning term
  made of the zeroed \<open>integral_auto\<close> and of the increment of the resetting call, which was
  not zeroed, and \<open>integral_read\<close> is the sum over both calls.
\<close>

theorem auto_reset_frame:
  assumes "last_integration s \<noteq> 0"
    and "did_reset (fst (put timestamp val integral integral_dt s))"
  shows "snd (put timestamp val integral integral_dt s)
           = s\<lparr>integral_auto := vzero,
               integral_read := vadd (integral_read s) (increment s timestamp val),
               last_integration := timestamp,
               last_val := val,
               last_delta := increment s timestamp val,
               last_auto := timestamp\<rparr>
    \<and> (timestamp \<noteq> 0 \<longrightarrow>
         last_delta (snd (put timestamp2 val2 integral2 integral_dt2
                       (snd (put timestamp val integral integral_dt s))))
           = (let dt = real (unat (timestamp2 - timestamp)) / 1000000;
                  i = vscale (vscale (vadd val2 val) dt) 0.5
              in if coning_comp_on s
                 then vadd i (vscale (vcross
                        (vadd vzero (vscale (increment s timestamp val) (1 / 6))) i) 0.5)
                 else i)
       \<and> integral_read (snd (put timestamp2 val2 integral2 integral_dt2
                          (snd (put timestamp val integral integral_dt s))))
           = vadd (vadd (integral_read s) (increment s timestamp val))
               (last_delta (snd (put timestamp2 val2 integral2 integral_dt2
                  (snd (put timestamp val integral integral_dt s))))))"
proof -
  let ?s' = "s\<lparr>integral_auto := vzero,
               integral_read := vadd (integral_read s) (increment s timestamp val),
               last_integration := timestamp,
               last_val := val,
               last_delta := increment s timestamp val,
               last_auto := timestamp\<rparr>"
  from assms have st: "snd (put timestamp val integral integral_dt s) = ?s'"
    by (simp add: put_def Let_def split: if_splits)
  have inc: "increment ?s' timestamp2 val2
      = (let dt = real (unat (timestamp2 - timestamp)) / 1000000;
             i = vscale (vscale (vadd val2 val) dt) 0.5
         in if coning_comp_on s
            then vadd i (vscale (vcross
                   (vadd vzero (vscale (increment s timestamp val) (1 / 6))) i) 0.5)
            else i)"
    by (simp add: increment_def [of ?s'] Let_def)
  have next_put: "timestamp \<noteq> 0 \<longrightarrow>
      last_delta (snd (put timestamp2 val2 integral2 integral_dt2 ?s'))
        = increment ?s' timestamp2 val2
      \<and> integral_read (snd (put timestamp2 val2 integral2 integral_dt2 ?s'))
        = vadd (vadd (integral_read s) (increment s timestamp val))
            (increment ?s' timestamp2 val2)"
    by (simp add: put_def Let_def)
  show ?thesis
    unfolding st using next_put by (simp add: inc)
qed

theorem auto_reset_frame_witness:
  "last_val (snd (put 5001 (Vector3 2 0 0) vzero 0
      ((Integrator 4000 True)\<lparr>last_integration := 1000, last_auto := 1000\<rparr>)))
     = Vector3 2 0 0
   \<and> last_delta (snd (put 5001 (Vector3 2 0 0) vzero 0
      ((Integrator 4000 True)\<lparr>last_integration := 1000, last_auto := 1000\<rparr>)))
     = Vector3 (4001 / 1000000) 0 0
   \<and> last_integration (snd (put 5001 (Vector3 2 0 0) vzero 0
      ((Integrator 4000 True)\<lparr>last_integration := 1000, last_auto := 1000\<rparr>))) = 5001
   \<and> last_delta (snd (put 6001 (Vector3 0 1 0) vzero 0
      (snd (put 5001 (Vector3 2 0 0) vzero 0
        ((Integrator 4000 True)\<lparr>last_integration := 1000, last_auto := 1000\<rparr>)))))
     = Vector3 (1 / 1000) (1 / 2000) (4001 / 24000000000)
   \<and> integral_read (snd (put 6001 (Vector3 0 1 0) vzero 0
      (snd (put 5001 (Vector3 2 0 0) vzero 0
        ((Integrator 4000 True)\<lparr>last_integration := 1000, last_auto := 1000\<rparr>)))))
     = Vector3 (5001 / 1000000) (1 / 2000) (4001 / 24000000000)"
proof -
  let ?s = "(Integrator 4000 True)\<lparr>last_integration := 1000, last_auto := 1000\<rparr>"
  let ?p = "put 5001 (Vector3 2 0 0) vzero 0 ?s"
  let ?q = "put 6001 (Vector3 0 1 0) vzero 0 (snd ?p)"
  have h1: "last_integration ?s \<noteq> 0"
    by (simp add: Integrator_def)
  have h2: "did_reset (fst ?p)"
    by (simp add: put_def Integrator_def Let_def)
  have i: "increment ?s 5001 (Vector3 2 0 0) = Vector3 (4001 / 1000000) 0 0"
    by (simp add: increment_def Integrator_def vzero_def)
  have c: "coning_comp_on ?s" and r: "integral_read ?s = vzero"
    by (simp_all add: Integrator_def)
  note th = auto_reset_frame [OF h1 h2, of 6001 "Vector3 0 1 0" vzero 0]
  have st: "snd ?p
      = ?s\<lparr>integral_auto := vzero,
            integral_read := vadd (integral_read ?s) (increment ?s 5001 (Vector3 2 0 0)),
            last_integration := 5001,
            last_val := Vector3 2 0 0,
            last_delta := increment ?s 5001 (Vector3 2 0 0),
            last_auto := 5001\<rparr>"
    using th by (rule conjunct1)
  have nz: "(5001 :: 64 word) \<noteq> 0"
    by simp
  note nx = th [THEN conjunct2, THEN mp, OF nz]
  have ld: "last_delta (snd ?q) = Vector3 (1 / 1000) (1 / 2000) (4001 / 24000000000)"
    unfolding nx [THEN conjunct1] i by (simp add: c vzero_def Let_def)
  have rd: "integral_read (snd ?q) = Vector3 (5001 / 1000000) (1 / 2000) (4001 / 24000000000)"
    unfolding nx [THEN conjunct2] ld i r by (simp add: vzero_def)
  have a: "last_val (snd ?p) = Vector3 2 0 0"
    and b: "last_delta (snd ?p) = Vector3 (4001 / 1000000) 0 0"
    and d: "last_integration (snd ?p) = 5001"
    unfolding st i by simp_all
  from a b d ld rd show ?thesis
    by blast
qed

text \<open>
  Without the condition on the timestamp the consequences fail. After \<^verbatim>\<open>put(1000, v)\<close>
  the call \<^verbatim>\<open>put(0, v)\<close> resets (the difference \<open>0 - 1000\<close> wraps around in \<^verbatim>\<open>uint64_t\<close>)
  and stores the reserved 0 in \<open>last_integration\<close>; the next call \<^verbatim>\<open>put(2000, v)\<close>
  therefore initialises again: it adds nothing to \<open>integral_read\<close> and leaves \<open>last_delta\<close>
  alone, where the claim has it add the trapezoid \<open>(0.002, 0, 0)\<close>.
\<close>

theorem auto_reset_frame_counterexample:
  "last_integration (snd (put 1000 (Vector3 1 0 0) vzero 0 (Integrator 4000 False))) \<noteq> 0
   \<and> did_reset (fst (put 0 (Vector3 1 0 0) vzero 0
        (snd (put 1000 (Vector3 1 0 0) vzero 0 (Integrator 4000 False)))))
   \<and> integral_read (snd (put 2000 (Vector3 1 0 0) vzero 0
        (snd (put 0 (Vector3 1 0 0) vzero 0
          (snd (put 1000 (Vector3 1 0 0) vzero 0 (Integrator 4000 False)))))))
     = integral_read (snd (put 0 (Vector3 1 0 0) vzero 0
          (snd (put 1000 (Vector3 1 0 0) vzero 0 (Integrator 4000 False)))))
   \<and> last_delta (snd (put 2000 (Vector3 1 0 0) vzero 0
        (snd (put 0 (Vector3 1 0 0) vzero 0
          (snd (put 1000 (Vector3 1 0 0) vzero 0 (Integrator 4000 False)))))))
     = last_delta (snd (put 0 (Vector3 1 0 0) vzero 0
          (snd (put 1000 (Vector3 1 0 0) vzero 0 (Integrator 4000 False)))))
   \<and> vscale (vscale (vadd (Vector3 1 0 0) (Vector3 1 0 0))
        (real (unat ((2000 :: 64 word) - 0)) / 1000000)) 0.5
     = Vector3 (2 / 1000) 0 0
   \<and> integral_read (snd (put 2000 (Vector3 1 0 0) vzero 0
        (snd (put 0 (Vector3 1 0 0) vzero 0
          (snd (put 1000 (Vector3 1 0 0) vzero 0 (Integrator 4000 False)))))))
     \<noteq> vadd (integral_read (snd (put 0 (Vector3 1 0 0) vzero 0
          (snd (put 1000 (Vector3 1 0 0) vzero 0 (Integrator 4000 False))))))
         (Vector3 (2 / 1000) 0 0)"
  by (simp add: put_def Integrator_def increment_def vzero_def Let_def)

section \<open>read\<close>

lemma increment_integral_read_update:
  "increment (s\<lparr>integral_read := x\<rparr>) timestamp val = increment s timestamp val"
  by (simp add: increment_def Let_def)

text \<open>
  C5. \<^verbatim>\<open>read(true)\<close> returns \<open>integral_read\<close> and zeroes it, and leaves
  \<open>integral_auto\<close>, \<open>last_auto\<close>, \<open>last_integration\<close>, \<open>last_val\<close> and \<open>last_delta\<close> as they
  were; \<^verbatim>\<open>read(false)\<close> returns \<open>integral_read\<close> and changes nothing. So a \<^verbatim>\<open>put\<close> after
  \<^verbatim>\<open>read(true)\<close> computes the same increment, gives the same reply and leaves the same
  \<open>integral_auto\<close> and \<open>last_auto\<close> as it would without the read.
\<close>

theorem read_frame:
  "read True s = (integral_read s, s\<lparr>integral_read := vzero\<rparr>)
   \<and> integral_read (snd (read True s)) = vzero
   \<and> integral_auto (snd (read True s)) = integral_auto s
   \<and> last_auto (snd (read True s)) = last_auto s
   \<and> last_integration (snd (read True s)) = last_integration s
   \<and> last_val (snd (read True s)) = last_val s
   \<and> last_delta (snd (read True s)) = last_delta s
   \<and> read False s = (integral_read s, s)
   \<and> increment (snd (read True s)) timestamp val = increment s timestamp val
   \<and> fst (put timestamp val integral integral_dt (snd (read True s)))
       = fst (put timestamp val integral integral_dt s)
   \<and> integral_auto (snd (put timestamp val integral integral_dt (snd (read True s))))
       = integral_auto (snd (put timestamp val integral integral_dt s))
   \<and> last_auto (snd (put timestamp val integral integral_dt (snd (read True s))))
       = last_auto (snd (put timestamp val integral integral_dt s))"
  by (simp add: read_def put_def increment_integral_read_update Let_def split: option.split)

section \<open>Trapezoidal integration\<close>

lemma vadd_vzero_left: "vadd vzero v = v"
  by (cases v) (simp add: vzero_def)

lemma vadd_commute: "vadd a b = vadd b a"
  by (cases a; cases b) simp

text \<open>
  C2, as amended. With coning compensation disabled, after a first \<^verbatim>\<open>put(t0, v0)\<close> on a
  fresh integrator with \<open>t0\<close> not the reserved value 0, and a second \<^verbatim>\<open>put(t1, v1)\<close>
  with \<open>t1 > t0\<close> that triggers no auto-reset, \<^verbatim>\<open>get()\<close> returns the single trapezoidal
  increment \<open>(v0 + v1) * dt * 0.5\<close> with \<open>dt = (t1 - t0) / 1000000\<close> taken in the reals.
\<close>

theorem trapezoid_two_samples:
  assumes "t0 \<noteq> 0" and "t0 < t1"
    and "\<not> did_reset (fst (put t1 v1 integral' integral_dt'
            (snd (put t0 v0 integral integral_dt (Integrator interval False)))))"
  shows "get (snd (put t1 v1 integral' integral_dt'
            (snd (put t0 v0 integral integral_dt (Integrator interval False)))))
         = vscale (vscale (vadd v0 v1) ((real (unat t1) - real (unat t0)) / 1000000)) 0.5"
proof -
  let ?s1 = "snd (put t0 v0 integral integral_dt (Integrator interval False))"
  have s1: "?s1 = (Integrator interval False)
      \<lparr>last_integration := t0, last_auto := t0, last_val := v0\<rparr>"
    by (simp add: put_def Integrator_def)
  have le: "t0 \<le> t1"
    using assms(2) by simp
  have "unat (t1 - t0) = unat t1 - unat t0"
    using le by (rule unat_sub)
  moreover have "unat t0 \<le> unat t1"
    using le by (simp add: word_le_nat_alt)
  ultimately have dt: "real (unat (t1 - t0)) = real (unat t1) - real (unat t0)"
    by simp
  then have dt': "(unsigned (t1 - t0) :: real) = unsigned t1 - unsigned t0"
    by simp
  have inc: "increment ?s1 t1 v1
      = vscale (vscale (vadd v0 v1) ((real (unat t1) - real (unat t0)) / 1000000)) 0.5"
    unfolding s1 by (simp add: increment_def Integrator_def dt' vadd_commute [of v1 v0])
  have "get (snd (put t1 v1 integral' integral_dt' ?s1)) = vadd vzero (increment ?s1 t1 v1)"
    using assms(1,3) unfolding get_def
    by (simp add: put_def s1 Integrator_def Let_def split: if_splits)
  then show ?thesis
    by (simp add: inc vadd_vzero_left)
qed

theorem trapezoid_two_samples_witness:
  "(1000 :: 64 word) \<noteq> 0 \<and> (1000 :: 64 word) < 3000
   \<and> \<not> did_reset (fst (put 3000 (Vector3 3 0 1) vzero 0
            (snd (put 1000 (Vector3 1 2 0) vzero 0 (Integrator 4000 False)))))
   \<and> get (snd (put 3000 (Vector3 3 0 1) vzero 0
            (snd (put 1000 (Vector3 1 2 0) vzero 0 (Integrator 4000 False)))))
      = Vector3 (4 / 1000) (2 / 1000) (1 / 1000)"
proof -
  have h1: "(1000 :: 64 word) \<noteq> 0" by simp
  have h2: "(1000 :: 64 word) < 3000" by simp
  have h3: "\<not> did_reset (fst (put 3000 (Vector3 3 0 1) vzero 0
            (snd (put 1000 (Vector3 1 2 0) vzero 0 (Integrator 4000 False)))))"
    by (simp add: put_def Integrator_def Let_def)
  from trapezoid_two_samples [OF h1 h2 h3] h1 h2 h3 show ?thesis
    by simp
qed

text \<open>
  The claim without the condition on \<open>t0\<close> fails: a first sample at timestamp 0 leaves
  \<open>last_integration\<close> at 0, so the second \<^verbatim>\<open>put\<close> takes the initialising branch again and
  \<^verbatim>\<open>get()\<close> returns the zero vector, not the trapezoid \<open>(0.001, 0, 0)\<close>.
\<close>

theorem trapezoid_two_samples_counterexample:
  "(0 :: 64 word) < 1000
   \<and> \<not> did_reset (fst (put 1000 (Vector3 1 0 0) vzero 0
            (snd (put 0 (Vector3 1 0 0) vzero 0 (Integrator 4000 False)))))
   \<and> get (snd (put 1000 (Vector3 1 0 0) vzero 0
            (snd (put 0 (Vector3 1 0 0) vzero 0 (Integrator 4000 False)))))
      = Vector3 0 0 0
   \<and> vscale (vscale (vadd (Vector3 1 0 0) (Vector3 1 0 0))
        ((real (unat (1000 :: 64 word)) - real (unat (0 :: 64 word))) / 1000000)) 0.5
      = Vector3 (1 / 1000) 0 0
   \<and> get (snd (put 1000 (Vector3 1 0 0) vzero 0
            (snd (put 0 (Vector3 1 0 0) vzero 0 (Integrator 4000 False)))))
      \<noteq> vscale (vscale (vadd (Vector3 1 0 0) (Vector3 1 0 0))
        ((real (unat (1000 :: 64 word)) - real (unat (0 :: 64 word))) / 1000000)) 0.5"
  by (simp add: put_def Integrator_def get_def vzero_def)

text \<open>
  C4, as amended. On a fresh integrator with \<open>auto_reset_interval = 4000\<close> and coning
  disabled, \<^verbatim>\<open>put(1000, (0,0,0)); put(5000, (2,0,0)); put(5001, (2,0,0))\<close> return
  \<open>false\<close>, \<open>false\<close>, \<open>true\<close>: the second call adds the increment \<open>(0.004, 0, 0)\<close> and
  does not reset (4000 is not greater than 4000), and the third adds \<open>(0.000002, 0, 0)\<close>
  and resets, handing out the integral \<open>(0.004002, 0, 0)\<close> and the elapsed time 4001 and
  leaving \<open>integral_auto\<close> the zero vector.
\<close>

theorem concrete_scenario:
  "map fst (run [Put 1000 (Vector3 0 0 0), Put 5000 (Vector3 2 0 0), Put 5001 (Vector3 2 0 0)]
       (integral, integral_dt, Integrator 4000 False))
     = [Put_reply \<lparr>did_reset = False, integral_out = integral, integral_dt_out = integral_dt,
          callback_calls = []\<rparr>,
        Put_reply \<lparr>did_reset = False, integral_out = integral, integral_dt_out = integral_dt,
          callback_calls = []\<rparr>,
        Put_reply \<lparr>did_reset = True, integral_out = Vector3 (4002 / 1000000) 0 0,
          integral_dt_out = 4001, callback_calls = []\<rparr>]
   \<and> map (\<lambda>rc. integral_auto (obj (snd rc)))
       (run [Put 1000 (Vector3 0 0 0), Put 5000 (Vector3 2 0 0), Put 5001 (Vector3 2 0 0)]
         (integral, integral_dt, Integrator 4000 False))
     = [vzero, Vector3 (4 / 1000) 0 0, vzero]
   \<and> increment (snd (put 1000 (Vector3 0 0 0) integral integral_dt (Integrator 4000 False)))
       5000 (Vector3 2 0 0) = Vector3 (4 / 1000) 0 0"
  by (simp add: put_def Integrator_def increment_def read_def get_def vzero_def Let_def)

text \<open>
  The integral handed out by the third call is \<open>0.004002\<close> in its first component: it is
  further than \<open>0.000001\<close> from the \<open>0.0040005\<close> of the claim, whose last increment would
  be \<open>0.0000005\<close> where the code adds \<open>(2 + 2) * 0.000001 * 0.5 = 0.000002\<close>.
\<close>

theorem concrete_scenario_counterexample:
  "integral_out (fst (put 5001 (Vector3 2 0 0) vzero 0
      (snd (put 5000 (Vector3 2 0 0) vzero 0
        (snd (put 1000 (Vector3 0 0 0) vzero 0 (Integrator 4000 False)))))))
     = Vector3 (4002 / 1000000) 0 0
   \<and> \<not> \<bar>vx (integral_out (fst (put 5001 (Vector3 2 0 0) vzero 0
      (snd (put 5000 (Vector3 2 0 0) vzero 0
        (snd (put 1000 (Vector3 0 0 0) vzero 0 (Integrator 4000 False))))))))
       - 40005 / 10000000\<bar> \<le> 1 / 1000000"
  by (simp add: put_def Integrator_def increment_def vzero_def Let_def)

section \<open>The state machine\<close>

lemma call_step_running:
  assumes "running (obj c)" and "\<not> put_at_zero x"
  shows "running (obj (snd (call_step x c)))"
proof (cases c)
  case (fields integral integral_dt s)
  with assms show ?thesis
    by (cases x) (simp_all add: running_def put_def read_def Let_def)
qed

lemma run_running:
  assumes "running (obj c)" and "\<forall>x\<in>set calls. \<not> put_at_zero x"
  shows "\<forall>rc\<in>set (run calls c). running (obj (snd rc))"
  using assms
proof (induction calls arbitrary: c)
  case Nil
  then show ?case by simp
next
  case (Cons x xs)
  from Cons.prems have "running (obj (snd (call_step x c)))"
    by (simp add: call_step_running)
  with Cons show ?case
    by (simp add: Let_def)
qed

text \<open>
  C8, as amended. An integrator is uninitialized or running and never both; the
  constructor leaves it uninitialized; a \<^verbatim>\<open>put\<close> whose timestamp is not 0 leaves it
  running, whatever the state before and the sample; \<^verbatim>\<open>read\<close> does not change the state
  (\<^verbatim>\<open>get\<close> and \<^verbatim>\<open>current_integral_start\<close> change nothing at all); and a running integrator
  is running after every call of a sequence in which no \<^verbatim>\<open>put\<close> has the timestamp 0.
\<close>

theorem running_is_kept:
  "uninitialized (Integrator interval coning)
   \<and> (running s \<longleftrightarrow> \<not> uninitialized s)
   \<and> (timestamp \<noteq> 0 \<longrightarrow> running (snd (put timestamp val integral integral_dt s)))
   \<and> (running (snd (read auto_reset s)) \<longleftrightarrow> running s)
   \<and> (running (obj c) \<and> (\<forall>x\<in>set calls. \<not> put_at_zero x)
        \<longrightarrow> (\<forall>rc\<in>set (run calls c). running (obj (snd rc))))"
proof -
  have "timestamp \<noteq> 0 \<longrightarrow> running (snd (put timestamp val integral integral_dt s))"
    by (simp add: running_def put_def Let_def)
  moreover have "running (snd (read auto_reset s)) \<longleftrightarrow> running s"
    by (simp add: running_def read_def Let_def)
  moreover have "running (obj c) \<and> (\<forall>x\<in>set calls. \<not> put_at_zero x)
        \<longrightarrow> (\<forall>rc\<in>set (run calls c). running (obj (snd rc)))"
    using run_running by blast
  ultimately show ?thesis
    by (simp add: uninitialized_def running_def Integrator_def)
qed

theorem running_is_kept_witness:
  "running (snd (put 1000 (Vector3 1 2 3) vzero 0 (Integrator 4000 False)))
   \<and> running (obj (snd (last (run [Put 2000 (Vector3 1 0 0), Read True, Get, Put 9000 (Vector3 0 1 0)]
        (vzero, 0, snd (put 1000 (Vector3 1 2 3) vzero 0 (Integrator 4000 False)))))))"
proof -
  let ?s = "snd (put 1000 (Vector3 1 2 3) vzero 0 (Integrator 4000 False))"
  let ?calls = "[Put 2000 (Vector3 1 0 0), Read True, Get, Put 9000 (Vector3 0 1 0)]"
  note th = running_is_kept [of 4000 False "Integrator 4000 False" 1000 "Vector3 1 2 3" vzero 0
      True "(vzero, 0, ?s)" ?calls]
  have nz: "(1000 :: 64 word) \<noteq> 0" by simp
  have r: "running ?s"
    using th nz by blast
  have h: "\<forall>x\<in>set ?calls. \<not> put_at_zero x"
    by simp
  have "\<forall>rc\<in>set (run ?calls (vzero, 0, ?s)). running (obj (snd rc))"
    using th r h by simp
  moreover have "last (run ?calls (vzero, 0, ?s)) \<in> set (run ?calls (vzero, 0, ?s))"
    by (rule last_in_set) (simp add: Let_def)
  ultimately show ?thesis
    using r by blast
qed

text \<open>
  The first \<^verbatim>\<open>put\<close> does not leave the uninitialized state whatever its arguments, and the
  running state is not kept for ever: a first \<^verbatim>\<open>put\<close> at timestamp 0 leaves the integrator
  uninitialized, and a \<^verbatim>\<open>put\<close> at timestamp 0 on a running integrator stores 0 in
  \<open>last_integration\<close> and so returns it to the uninitialized state.
\<close>

theorem running_is_kept_counterexample:
  "uninitialized (snd (put 0 (Vector3 1 2 3) vzero 0 (Integrator 4000 False)))
   \<and> running (snd (put 1000 (Vector3 1 2 3) vzero 0 (Integrator 4000 False)))
   \<and> uninitialized (snd (put 0 (Vector3 1 2 3) vzero 0
        (snd (put 1000 (Vector3 1 2 3) vzero 0 (Integrator 4000 False)))))"
  by (simp add: uninitialized_def running_def put_def Integrator_def Let_def)

section \<open>The handler\<close>

lemma call_step_no_handler:
  assumes "auto_callback (obj c) = None"
  shows "handler_calls_of (fst (call_step x c)) = []
    \<and> auto_callback (obj (snd (call_step x c))) = None"
proof (cases c)
  case (fields integral integral_dt s)
  with assms show ?thesis
    by (cases x) (simp_all add: put_def read_def Let_def)
qed

lemma run_no_handler:
  assumes "auto_callback (obj c) = None"
  shows "handler_calls (run calls c) = []
    \<and> map (\<lambda>rc. auto_callback (obj (snd rc))) (run calls c) = replicate (length calls) None"
  using assms
proof (induction calls arbitrary: c)
  case Nil
  then show ?case by (simp add: handler_calls_def)
next
  case (Cons x xs)
  from Cons.prems have st: "handler_calls_of (fst (call_step x c)) = []"
    and cb: "auto_callback (obj (snd (call_step x c))) = None"
    using call_step_no_handler by blast+
  from Cons.IH [OF cb] st cb show ?case
    by (simp add: handler_calls_def Let_def)
qed

text \<open>
  C9. The constructor sets the handler to \<^verbatim>\<open>nullptr\<close> and no public member function
  assigns it: after every call of every sequence of calls on a constructed integrator the
  handler is still \<^verbatim>\<open>nullptr\<close>, and no call of the sequence has invoked it, so that a
  \<^verbatim>\<open>put\<close> shows itself through its return value and its two output parameters only.
\<close>

theorem callback_never_invoked:
  "auto_callback (Integrator interval coning) = None
   \<and> handler_calls (run calls (integral, integral_dt, Integrator interval coning)) = []
   \<and> map (\<lambda>rc. auto_callback (obj (snd rc)))
        (run calls (integral, integral_dt, Integrator interval coning))
       = replicate (length calls) None"
proof -
  have "auto_callback (obj (integral, integral_dt, Integrator interval coning)) = None"
    by (simp add: Integrator_def)
  from run_no_handler [OF this] show ?thesis
    by (simp add: Integrator_def)
qed

section \<open>Coning compensation on parallel samples\<close>














subsection \<open>Three parallel samples in the arithmetic of the machine\<close>
















end
